theory Spec2Isabelle
  imports Complex_Main "HOL-Library.AList"
begin

section \<open>The neighbour list of \<open>ase/calculators/neighborlist.py\<close>\<close>

text \<open>
  The class \<open>NeighborList\<close> has four methods: \<open>__init__\<close>, \<open>update\<close>, \<open>build\<close> and
  \<open>neighbors\<close>. The model follows the Python text line by line.

  \<^item> Python floats are modelled as real numbers: \<open>+\<close>, \<open>*\<close>, \<open>/\<close>, \<open>sqrt\<close> and \<open>%\<close> are the
    exact operations, so rounding, infinities and NaN are outside the model.
  \<^item> An attribute of the instance that no statement has assigned yet is \<open>None\<close> of the
    option type (reading it raises \<open>AttributeError\<close>); Python's own \<open>None\<close> is the
    constructor \<open>NoneVal\<close>.
  \<^item> The names \<open>npy\<close> and \<open>sqrt\<close> are taken to be bound to \<open>numpy\<close> and to the square
    root. The names \<open>cutoffs\<close> (read in \<open>build\<close>) and \<open>displ\<close> (read in \<open>neighbors\<close>)
    are neither parameters nor local variables, so Python looks them up in the module
    namespace. The file binds neither; the record \<open>globals\<close> carries what the module
    namespace holds for them, \<open>None\<close> when the name is unbound (\<open>NameError\<close>).
  \<^item> Every raise is a value \<open>Inl e\<close>; a method returns its result together with the
    instance as the call leaves it, also when it raises.
\<close>

subsection \<open>Values\<close>

type_synonym vec3 = "real \<times> real \<times> real"

text \<open>A 3x3 array, given by its rows.\<close>
type_synonym mat3 = "vec3 \<times> vec3 \<times> vec3"

type_synonym species = int

text \<open>A dictionary from species to radius, as the list of its items; keys are distinct.\<close>
type_synonym pydict = "(species \<times> real) list"

type_synonym addr = nat

text \<open>The dictionary objects that exist, by address.\<close>
type_synonym heap = "pydict list"

datatype error =
  NameError | AttributeError | TypeError | ValueError | IndexError | LinAlgError
  | ZeroDivisionError

text \<open>What a call can return to its caller.\<close>
datatype pyval = PyNone | PyBool bool

text \<open>What the attribute \<open>positions\<close> can hold: Python's \<open>None\<close> or an N x 3 array.\<close>
datatype posval = NoneVal | Array "vec3 list"

record atoms =
  atoms_positions :: "vec3 list"
  atoms_pbc :: "bool \<times> bool \<times> bool"
  atoms_cell :: mat3

record neighborlist =
  cutoffs :: addr
  skin :: real
  positions :: "posval option"
  pbc :: "(bool \<times> bool \<times> bool) option"
  cell :: "mat3 option"
  nbors :: "int list list option"

record globals =
  g_cutoffs :: "pydict option"
  g_displ :: "vec3 list option"

definition get_positions :: "atoms \<Rightarrow> vec3 list" where
  "get_positions a = atoms_positions a"

definition get_pbc :: "atoms \<Rightarrow> bool \<times> bool \<times> bool" where
  "get_pbc a = atoms_pbc a"

definition get_cell :: "atoms \<Rightarrow> mat3" where
  "get_cell a = atoms_cell a"

subsection \<open>Arrays\<close>

fun vget :: "vec3 \<Rightarrow> nat \<Rightarrow> real" where
  "vget (x, y, z) i = (if i = 0 then x else if i = 1 then y else z)"

fun vset :: "vec3 \<Rightarrow> nat \<Rightarrow> real \<Rightarrow> vec3" where
  "vset (x, y, z) i v = (if i = 0 then (v, y, z) else if i = 1 then (x, v, z) else (x, y, v))"

fun bget :: "bool \<times> bool \<times> bool \<Rightarrow> nat \<Rightarrow> bool" where
  "bget (x, y, z) i = (if i = 0 then x else if i = 1 then y else z)"

fun vsub :: "vec3 \<Rightarrow> vec3 \<Rightarrow> vec3" where
  "vsub (x, y, z) (x', y', z') = (x - x', y - y', z - z')"


fun dot3 :: "vec3 \<Rightarrow> vec3 \<Rightarrow> real" where
  "dot3 (x, y, z) (x', y', z') = x * x' + y * y' + z * z'"

text \<open>\<open>m[i, :]\<close> and \<open>m[:, i]\<close>.\<close>
fun row :: "mat3 \<Rightarrow> nat \<Rightarrow> vec3" where
  "row (r0, r1, r2) i = (if i = 0 then r0 else if i = 1 then r1 else r2)"

fun column :: "mat3 \<Rightarrow> nat \<Rightarrow> vec3" where
  "column (r0, r1, r2) i = (vget r0 i, vget r1 i, vget r2 i)"

text \<open>One row of \<open>npy.dot(P, m)\<close>: a row vector times a matrix.\<close>
definition vecmat :: "vec3 \<Rightarrow> mat3 \<Rightarrow> vec3" where
  "vecmat p m = (dot3 p (column m 0), dot3 p (column m 1), dot3 p (column m 2))"

definition npy_dot :: "vec3 list \<Rightarrow> mat3 \<Rightarrow> vec3 list" where
  "npy_dot P m = map (\<lambda>p. vecmat p m) P"

fun det3 :: "mat3 \<Rightarrow> real" where
  "det3 ((a, b, c), (d, e, f), (g, h, i)) =
     a * (e * i - f * h) - b * (d * i - f * g) + c * (d * h - e * g)"

text \<open>
  \<open>npy.linalg.inv\<close> in exact arithmetic: the inverse, and \<open>LinAlgError\<close> when the
  determinant is zero. numpy factorises in floating point and raises only when a pivot
  comes out exactly zero, as it does on the all-zero matrix; on another singular matrix
  rounding can leave a tiny pivot, and then a matrix is returned. The only singular
  matrix the function is applied to below is the all-zero one, and nothing below rests
  on a singular cell being refused.
\<close>
fun npy_linalg_inv :: "mat3 \<Rightarrow> error + mat3" where
  "npy_linalg_inv ((a, b, c), (d, e, f), (g, h, i)) =
     (let D = det3 ((a, b, c), (d, e, f), (g, h, i)) in
      if D = 0 then Inl LinAlgError
      else Inr (((e * i - f * h) / D, (c * h - b * i) / D, (b * f - c * e) / D),
                ((f * g - d * i) / D, (a * i - c * g) / D, (c * d - a * f) / D),
                ((d * h - e * g) / D, (b * g - a * h) / D, (a * e - b * d) / D)))"

text \<open>
  \<open>A - B\<close> on two N x 3 arrays, with numpy's broadcasting: equal row counts subtract
  row by row, a single row is repeated against the other array, anything else raises.
\<close>
definition npy_sub :: "vec3 list \<Rightarrow> vec3 list \<Rightarrow> error + vec3 list" where
  "npy_sub A B =
     (if length A = length B then Inr (map (\<lambda>(p, q). vsub p q) (zip A B))
      else if length A = 1 then Inr (map (\<lambda>q. vsub (hd A) q) B)
      else if length B = 1 then Inr (map (\<lambda>p. vsub p (hd B)) A)
      else Inl ValueError)"

text \<open>\<open>A**2\<close>, element by element.\<close>
definition npy_square :: "vec3 list \<Rightarrow> vec3 list" where
  "npy_square A = map (\<lambda>(x, y, z). (x * x, y * y, z * z)) A"

definition flatten :: "vec3 list \<Rightarrow> real list" where
  "flatten A = concat (map (\<lambda>(x, y, z). [x, y, z]) A)"

text \<open>\<open>A.max()\<close>: the largest element of the whole array; an empty array raises.\<close>
definition npy_max :: "vec3 list \<Rightarrow> error + real" where
  "npy_max A = (case flatten A of [] \<Rightarrow> Inl ValueError | x # xs \<Rightarrow> Inr (fold max xs x))"

text \<open>The builtin \<open>max\<close> on the values of a dictionary; no values raises.\<close>
definition py_max :: "real list \<Rightarrow> error + real" where
  "py_max vs = (case vs of [] \<Rightarrow> Inl ValueError | x # xs \<Rightarrow> Inr (fold max xs x))"

text \<open>
  \<open>x % y\<close> on floats, in exact arithmetic: the result has the sign of \<open>y\<close>. For \<open>y = 1\<close>
  the exact result \<open>x - floor(x)\<close> is below 1; the float operation rounds, and for a
  negative \<open>x\<close> of tiny magnitude it returns 1.0 itself. Nothing below rests on the
  result being below 1; the values it is applied to are binary fractions, on which the
  float operation is exact.
\<close>
definition py_fmod :: "real \<Rightarrow> real \<Rightarrow> real" where
  "py_fmod x y = x - of_int \<lfloor>x / y\<rfloor> * y"

text \<open>\<open>int(x)\<close> on a float: truncation toward zero.\<close>
definition py_int :: "real \<Rightarrow> int" where
  "py_int x = (if 0 \<le> x then \<lfloor>x\<rfloor> else \<lceil>x\<rceil>)"

text \<open>\<open>xs[a]\<close> on a list: a negative index counts from the end.\<close>
definition py_index :: "'a list \<Rightarrow> int \<Rightarrow> error + 'a" where
  "py_index xs a =
     (let n = int (length xs) in
      if 0 \<le> a \<and> a < n then Inr (xs ! nat a)
      else if - n \<le> a \<and> a < 0 then Inr (xs ! nat (a + n))
      else Inl IndexError)"

text \<open>\<open>dict(items)\<close>: a later item replaces an earlier one with the same key.\<close>
definition py_dict :: "(species \<times> real) list \<Rightarrow> pydict" where
  "py_dict its = fold (\<lambda>(k, v) d. AList.update k v d) its []"

subsection \<open>\<open>__init__\<close>\<close>

text \<open>
  \<^verbatim>\<open>
  def __init__(self, cutoffs, skin=0.3):
      self.cutoffs = dict([(Z, rc + skin) for Z, rc in cutoffs.items()])
      self.skin = skin
  \<close>
  The argument \<open>cutoffs\<close> is a reference \<open>p\<close> to the caller's dictionary; \<open>dict(...)\<close>
  allocates a new dictionary. A missing \<open>skin\<close> argument is \<open>None\<close>. The new instance has
  the two attributes assigned here and no other.
\<close>

definition init :: "heap \<Rightarrow> addr \<Rightarrow> real option \<Rightarrow> heap \<times> neighborlist" where
  "init h p skin_arg =
     (let sk = (case skin_arg of None \<Rightarrow> 3 / 10 | Some x \<Rightarrow> x);
          d = py_dict (map (\<lambda>(Z, rc). (Z, rc + sk)) (h ! p))
      in (h @ [d],
          \<lparr>cutoffs = length h, skin = sk, positions = None, pbc = None, cell = None,
           nbors = None\<rparr>))"

subsection \<open>\<open>build\<close>\<close>

text \<open>
  \<^verbatim>\<open>
  for i in range(3):
      if self.pbc[i]:
          scaled[:, i] %= 1.0
          v = icell[:, i]
          h = 1 / sqrt(npy.dot(v, v))
          N.append(int(rcmax / h) + 1)
      else:
          N.append(0)
  \<close>
  The loop, over the list of the axes still to visit, on the pair \<open>(scaled, N)\<close>.
\<close>

fun axis_loop ::
  "real \<Rightarrow> mat3 \<Rightarrow> bool \<times> bool \<times> bool \<Rightarrow> nat list \<Rightarrow> vec3 list \<times> int list
     \<Rightarrow> error + (vec3 list \<times> int list)" where
  "axis_loop rcmax icell pb [] st = Inr st"
| "axis_loop rcmax icell pb (i # rest) (scaled, N) =
     (if bget pb i then
        (let scaled' = map (\<lambda>p. vset p i (py_fmod (vget p i) 1)) scaled;
             v = column icell i;
             q = sqrt (dot3 v v)
         in if q = 0 then Inl ZeroDivisionError
            else (let h = 1 / q
                  in axis_loop rcmax icell pb rest (scaled', N @ [py_int (rcmax / h) + 1])))
      else axis_loop rcmax icell pb rest (scaled, N @ [0]))"

text \<open>The local variables of \<open>build\<close> when its last statement has run.\<close>
record build_locals =
  l_rcmax :: real
  l_icell :: mat3
  l_scaled0 :: "vec3 list"
  l_scaled :: "vec3 list"
  l_N :: "int list"
  l_R :: "vec3 list"

text \<open>
  \<^verbatim>\<open>
  rcmax = max(cutoffs.values())
  icell = npy.linalg.inv(self.cell)
  scaled = npy.dot(self.positions, icell)
  N = []
  for i in range(3): ...
  R = npy.dot(scaled, self.cell)
  \<close>
  The statements of \<open>build\<close> after its three assignments from \<open>atoms\<close>, on the instance
  as those assignments left it. \<open>l_scaled0\<close> is \<open>scaled\<close> as line 19 computes it, before
  the loop changes it in place. \<open>npy.dot\<close> of \<open>None\<close> and an array raises \<open>TypeError\<close>.
\<close>

definition build_body :: "globals \<Rightarrow> neighborlist \<Rightarrow> error + build_locals" where
  "build_body g s =
     (case g_cutoffs g of None \<Rightarrow> Inl NameError
      | Some d \<Rightarrow>
     (case py_max (map snd d) of Inl e \<Rightarrow> Inl e
      | Inr rcmax \<Rightarrow>
     (case cell s of None \<Rightarrow> Inl AttributeError
      | Some c \<Rightarrow>
     (case npy_linalg_inv c of Inl e \<Rightarrow> Inl e
      | Inr icell \<Rightarrow>
     (case positions s of None \<Rightarrow> Inl AttributeError
      | Some NoneVal \<Rightarrow> Inl TypeError
      | Some (Array P) \<Rightarrow>
     (case pbc s of None \<Rightarrow> Inl AttributeError
      | Some pb \<Rightarrow>
     (case axis_loop rcmax icell pb [0, 1, 2] (npy_dot P icell, []) of Inl e \<Rightarrow> Inl e
      | Inr (scaled, N) \<Rightarrow>
          Inr \<lparr>l_rcmax = rcmax, l_icell = icell, l_scaled0 = npy_dot P icell,
               l_scaled = scaled, l_N = N, l_R = npy_dot scaled c\<rparr>)))))))"

text \<open>
  \<^verbatim>\<open>
  def build(self, atoms):
      positions = atoms.get_positions()
      self.pbc = atoms.get_pbc()
      self.cell = atoms.get_cell()
      ...
  \<close>
  \<open>positions\<close> is a local variable that nothing reads. The method has no \<open>return\<close>
  statement: it returns \<open>None\<close>, and its local variables are dropped.
\<close>

definition build_assign :: "neighborlist \<Rightarrow> atoms \<Rightarrow> neighborlist" where
  "build_assign s a = s\<lparr>pbc := Some (get_pbc a), cell := Some (get_cell a)\<rparr>"

definition build :: "globals \<Rightarrow> neighborlist \<Rightarrow> atoms \<Rightarrow> (error + pyval) \<times> neighborlist" where
  "build g s a =
     (let s' = build_assign s a in
      case build_body g s' of Inl e \<Rightarrow> (Inl e, s') | Inr L \<Rightarrow> (Inr PyNone, s'))"

subsection \<open>\<open>update\<close>\<close>

text \<open>
  \<^verbatim>\<open>
  def update(self, atoms):
      if (self.positions is None or
          ((atoms.positions - self.positions)**2).max() > self.skin**2):
          self.build(atoms)
  \<close>
  \<open>rebuild_check\<close> is the condition of the \<open>if\<close>: \<open>or\<close> does not evaluate its second
  operand when the first is true. \<open>update\<close> has no \<open>return\<close> statement either.
\<close>

definition rebuild_check :: "neighborlist \<Rightarrow> atoms \<Rightarrow> error + bool" where
  "rebuild_check s a =
     (case positions s of None \<Rightarrow> Inl AttributeError
      | Some NoneVal \<Rightarrow> Inr True
      | Some (Array P) \<Rightarrow>
     (case npy_sub (atoms_positions a) P of Inl e \<Rightarrow> Inl e
      | Inr D \<Rightarrow>
     (case npy_max (npy_square D) of Inl e \<Rightarrow> Inl e
      | Inr m \<Rightarrow> Inr (m > skin s * skin s))))"

definition update :: "globals \<Rightarrow> neighborlist \<Rightarrow> atoms \<Rightarrow> (error + pyval) \<times> neighborlist" where
  "update g s a =
     (case rebuild_check s a of Inl e \<Rightarrow> (Inl e, s)
      | Inr True \<Rightarrow> (case build g s a of (Inl e, s') \<Rightarrow> (Inl e, s')
                                     | (Inr v, s') \<Rightarrow> (Inr PyNone, s'))
      | Inr False \<Rightarrow> (Inr PyNone, s))"

subsection \<open>\<open>neighbors\<close>\<close>

text \<open>
  \<^verbatim>\<open>
  def neighbors(self, a):
      return self.nbors[a], displ
  \<close>
  The result is the 2-tuple of the row \<open>self.nbors[a]\<close> and of whatever \<open>displ\<close> is
  bound to; the row is evaluated first.
\<close>

definition neighbors :: "globals \<Rightarrow> neighborlist \<Rightarrow> int \<Rightarrow> error + (int list \<times> vec3 list)" where
  "neighbors g s a =
     (case nbors s of None \<Rightarrow> Inl AttributeError
      | Some rows \<Rightarrow>
     (case py_index rows a of Inl e \<Rightarrow> Inl e
      | Inr r \<Rightarrow>
     (case g_displ g of None \<Rightarrow> Inl NameError
      | Some d \<Rightarrow> Inr (r, d))))"

subsection \<open>What the specification asks for\<close>

text \<open>
  The specification's rebuild condition, in its own words: the instance is stale (no
  positions cached by a build), or the largest Euclidean displacement of an atom since
  the last build exceeds the skin. The largest of finitely many displacements exceeds
  the skin exactly when one of them does.
\<close>

definition euclid_norm :: "vec3 \<Rightarrow> real" where
  "euclid_norm v = sqrt (dot3 v v)"

definition spec_should_rebuild :: "neighborlist \<Rightarrow> atoms \<Rightarrow> bool" where
  "spec_should_rebuild s a =
     (case positions s of
        Some (Array P) \<Rightarrow>
          list_ex (\<lambda>(p, q). euclid_norm (vsub p q) > skin s) (zip (atoms_positions a) P)
      | _ \<Rightarrow> True)"

text \<open>
  The specification's fractional coordinates, in its own words: the positions of the
  atoms scaled by the inverse cell, and on every periodic axis wrapped into [0, 1) by a
  modulo that sends a negative coordinate to the top of the interval.
\<close>

definition spec_wrap :: "bool \<times> bool \<times> bool \<Rightarrow> vec3 \<Rightarrow> vec3" where
  "spec_wrap pb p =
     (if bget pb 0 then vget p 0 - of_int \<lfloor>vget p 0\<rfloor> else vget p 0,
      if bget pb 1 then vget p 1 - of_int \<lfloor>vget p 1\<rfloor> else vget p 1,
      if bget pb 2 then vget p 2 - of_int \<lfloor>vget p 2\<rfloor> else vget p 2)"

definition spec_scaled :: "mat3 \<Rightarrow> bool \<times> bool \<times> bool \<Rightarrow> vec3 list \<Rightarrow> vec3 list" where
  "spec_scaled icell pb P = map (\<lambda>p. spec_wrap pb (vecmat p icell)) P"

text \<open>
  The specification's slab thickness of axis \<open>i\<close>: the perpendicular spacing between
  the two opposing faces of the cell, that is the volume of the cell over the area of
  the face spanned by the two other lattice vectors (the rows of the cell).
\<close>

fun cross3 :: "vec3 \<Rightarrow> vec3 \<Rightarrow> vec3" where
  "cross3 (x, y, z) (x', y', z') = (y * z' - z * y', z * x' - x * z', x * y' - y * x')"

definition face_spacing :: "mat3 \<Rightarrow> nat \<Rightarrow> real" where
  "face_spacing c i =
     \<bar>det3 c\<bar> / euclid_norm (cross3 (row c ((i + 1) mod 3)) (row c ((i + 2) mod 3)))"

text \<open>
  The specification's \<open>rcmax\<close>: the largest effective cutoff, that is the largest value
  of the table the constructor stored in the instance.
\<close>

definition spec_rcmax :: "heap \<Rightarrow> neighborlist \<Rightarrow> error + real" where
  "spec_rcmax h s = py_max (map snd (h ! cutoffs s))"

text \<open>
  The specification's repeat count for axis \<open>i\<close>, in its own words:
  \<open>floor(rcmax / slab_thickness) + 1\<close> on a periodic axis, zero on the others.
\<close>

definition spec_repeats :: "real \<Rightarrow> mat3 \<Rightarrow> bool \<times> bool \<times> bool \<Rightarrow> nat \<Rightarrow> int" where
  "spec_repeats rcmax c pb i = (if bget pb i then \<lfloor>rcmax / face_spacing c i\<rfloor> + 1 else 0)"


subsection \<open>What one pass of the axis loop does\<close>

definition wrap_axis :: "bool \<times> bool \<times> bool \<Rightarrow> nat \<Rightarrow> vec3 list \<Rightarrow> vec3 list" where
  "wrap_axis pb i sc =
     (if bget pb i then map (\<lambda>p. vset p i (py_fmod (vget p i) 1)) sc else sc)"

text \<open>The same pass on one row of \<open>scaled\<close>.\<close>
definition wrap_vec :: "bool \<times> bool \<times> bool \<Rightarrow> nat \<Rightarrow> vec3 \<Rightarrow> vec3" where
  "wrap_vec pb i p = (if bget pb i then vset p i (py_fmod (vget p i) 1) else p)"

definition repeats :: "real \<Rightarrow> mat3 \<Rightarrow> bool \<times> bool \<times> bool \<Rightarrow> nat \<Rightarrow> int" where
  "repeats rc ic pb i =
     (if bget pb i then py_int (rc / (1 / sqrt (dot3 (column ic i) (column ic i)))) + 1
      else 0)"

subsection \<open>Concrete inputs\<close>

definition unit_cell :: mat3 where
  "unit_cell = ((1, 0, 0), (0, 1, 0), (0, 0, 1))"

definition zero_cell :: mat3 where
  "zero_cell = ((0, 0, 0), (0, 0, 0), (0, 0, 0))"

text \<open>The module namespace of the file as it stands: neither name is bound.\<close>
definition no_globals :: globals where
  "no_globals = \<lparr>g_cutoffs = None, g_displ = None\<rparr>"

text \<open>A module namespace that binds both names.\<close>
definition some_globals :: globals where
  "some_globals = \<lparr>g_cutoffs = Some [(1, 7 / 32)], g_displ = Some [(1, 0, 0)]\<rparr>"

text \<open>An instance that holds one cached position, a unit cell and no periodic axis.\<close>
definition cached_at :: "vec3 \<Rightarrow> real \<Rightarrow> neighborlist" where
  "cached_at p sk =
     \<lparr>cutoffs = 0, skin = sk, positions = Some (Array [p]),
      pbc = Some (False, False, False), cell = Some unit_cell, nbors = Some [[]]\<rparr>"

text \<open>One atom at \<open>p\<close> in the cell \<open>c\<close> with the periodicity flags \<open>pb\<close>.\<close>
definition atoms_in :: "mat3 \<Rightarrow> bool \<times> bool \<times> bool \<Rightarrow> vec3 \<Rightarrow> atoms" where
  "atoms_in c pb p = \<lparr>atoms_positions = [p], atoms_pbc = pb, atoms_cell = c\<rparr>"

definition atoms_at :: "vec3 \<Rightarrow> atoms" where
  "atoms_at p = atoms_in unit_cell (False, False, False) p"

text \<open>Two atoms one unit apart along x, with the stored rows \<open>rows\<close>.\<close>
definition pair_state :: "int list list \<Rightarrow> neighborlist" where
  "pair_state rows =
     \<lparr>cutoffs = 0, skin = 1, positions = Some (Array [(0, 0, 0), (1, 0, 0)]),
      pbc = Some (False, False, False), cell = Some unit_cell, nbors = Some rows\<rparr>"


text \<open>Two atoms in a unit cell that is periodic along all three axes.\<close>
definition periodic_atoms :: atoms where
  "periodic_atoms =
     \<lparr>atoms_positions = [(- 1 / 4, 0, 0), (5 / 2, 0, 0)], atoms_pbc = (True, True, True),
      atoms_cell = unit_cell\<rparr>"

text \<open>
  An instance made by the constructor from the radii \<open>{1: 1.0}\<close> with the default skin,
  to which a caller has given one cached position; and the dictionaries that exist then.
\<close>
definition constructed_heap :: heap where
  "constructed_heap = fst (init [[(1, 1)]] 0 None)"

definition constructed :: neighborlist where
  "constructed = (snd (init [[(1, 1)]] 0 None))\<lparr>positions := Some (Array [(0, 0, 0)])\<rparr>"

section \<open>Properties\<close>

subsection \<open>Dictionaries\<close>

lemma update_absent_key: "k \<notin> fst ` set al \<Longrightarrow> AList.update k v al = al @ [(k, v)]"
  by (induction al) auto

lemma fold_update_distinct:
  "distinct (map fst its) \<Longrightarrow> fst ` set its \<inter> fst ` set acc = {} \<Longrightarrow>
     fold (\<lambda>(k, v) d. AList.update k v d) its acc = acc @ its"
proof (induction its arbitrary: acc)
  case Nil
  show ?case by simp
next
  case (Cons kv its)
  obtain k v where kv: "kv = (k, v)" by (cases kv)
  have absent: "k \<notin> fst ` set acc" using Cons.prems(2) by (auto simp: kv)
  have d: "distinct (map fst its)" using Cons.prems(1) by simp
  have disj: "fst ` set its \<inter> fst ` set (acc @ [(k, v)]) = {}"
    using Cons.prems by (auto simp: kv)
  show ?case
    using Cons.IH[OF d disj] by (simp add: kv update_absent_key[OF absent])
qed

lemma py_dict_distinct: "distinct (map fst its) \<Longrightarrow> py_dict its = its"
  using fold_update_distinct[of its "[]"] by (simp add: py_dict_def)

lemma map_of_add_skin:
  "map_of (map (\<lambda>(Z, rc). (Z, rc + sk)) d) Z = map_option (\<lambda>rc. rc + sk) (map_of d Z)"
  by (induction d) auto

lemma keys_add_skin: "map fst (map (\<lambda>(Z, rc). (Z, rc + (sk::real))) d) = map fst d"
  by (induction d) auto

subsection \<open>The constructor\<close>

text \<open>
  Claim C10. Without a \<open>skin\<close> argument the skin is 0.3, with one it is the argument.
  For a caller's dictionary at address \<open>p\<close> the constructor stores, for every species
  of that dictionary and for no other, the supplied radius plus the skin. The stored
  table is a new object: its address is none of the existing ones, the caller's
  dictionary is left as it was, and a later write to the caller's dictionary does not
  change the stored table.
\<close>

theorem init_stores_radius_plus_skin:
  assumes "p < length h" and "distinct (map fst (h ! p))"
  shows "skin (snd (init h p None)) = 3 / 10
       \<and> skin (snd (init h p (Some sk))) = sk
       \<and> fst (init h p arg) ! cutoffs (snd (init h p arg))
           = map (\<lambda>(Z, rc). (Z, rc + skin (snd (init h p arg)))) (h ! p)
       \<and> map_of (fst (init h p arg) ! cutoffs (snd (init h p arg))) Z
           = map_option (\<lambda>rc. rc + skin (snd (init h p arg))) (map_of (h ! p) Z)
       \<and> cutoffs (snd (init h p arg)) = length h
       \<and> cutoffs (snd (init h p arg)) \<noteq> p
       \<and> fst (init h p arg) ! p = h ! p
       \<and> (fst (init h p arg)) [p := d'] ! cutoffs (snd (init h p arg))
           = fst (init h p arg) ! cutoffs (snd (init h p arg))"
proof -
  define sk' where "sk' = (case arg of None \<Rightarrow> 3 / 10 | Some x \<Rightarrow> (x::real))"
  have dist: "distinct (map fst (map (\<lambda>(Z, rc). (Z, rc + sk')) (h ! p)))"
    using assms(2) by (simp only: keys_add_skin)
  have stored: "fst (init h p arg) ! cutoffs (snd (init h p arg))
                  = map (\<lambda>(Z, rc). (Z, rc + sk')) (h ! p)"
    by (simp add: init_def Let_def sk'_def[symmetric] py_dict_distinct[OF dist])
  have sk: "skin (snd (init h p arg)) = sk'"
    by (simp add: init_def Let_def sk'_def)
  have a: "cutoffs (snd (init h p arg)) = length h"
    by (simp add: init_def Let_def)
  have old: "fst (init h p arg) ! p = h ! p"
    using assms(1) by (simp add: init_def Let_def nth_append)
  have upd: "(fst (init h p arg)) [p := d'] ! cutoffs (snd (init h p arg))
               = fst (init h p arg) ! cutoffs (snd (init h p arg))"
    using assms(1) by (simp add: a)
  show ?thesis
    using assms(1) stored old upd
    by (simp add: sk a map_of_add_skin) (simp add: init_def Let_def)
qed

theorem init_stores_radius_plus_skin_witness:
  "(0::nat) < length [[(1, 1), (8, 1 / 2)]]
   \<and> distinct (map fst ([[(1::int, 1::real), (8, 1 / 2)]] ! 0))
   \<and> skin (snd (init [[(1, 1), (8, 1 / 2)]] 0 None)) = 3 / 10
   \<and> fst (init [[(1, 1), (8, 1 / 2)]] 0 None)
         ! cutoffs (snd (init [[(1, 1), (8, 1 / 2)]] 0 None))
       = [(1, 13 / 10), (8, 8 / 10)]
   \<and> fst (init [[(1, 1), (8, 1 / 2)]] 0 (Some 1))
         ! cutoffs (snd (init [[(1, 1), (8, 1 / 2)]] 0 (Some 1)))
       = [(1, 2), (8, 3 / 2)]"
proof -
  let ?H = "[[(1::int, 1::real), (8, 1 / 2)]]"
  have h1: "(0::nat) < length ?H" by simp
  have h2: "distinct (map fst (?H ! 0))" by simp
  note dflt = init_stores_radius_plus_skin[OF h1 h2, where arg = None and sk = 1]
  note expl = init_stores_radius_plus_skin[OF h1 h2, where arg = "Some 1" and sk = 1]
  have s0: "skin (snd (init ?H 0 None)) = 3 / 10" using dflt by blast
  have s1: "skin (snd (init ?H 0 (Some 1))) = 1" using expl by blast
  have c0: "fst (init ?H 0 None) ! cutoffs (snd (init ?H 0 None))
              = map (\<lambda>(Z, rc). (Z, rc + skin (snd (init ?H 0 None)))) (?H ! 0)"
    using dflt by blast
  have c1: "fst (init ?H 0 (Some 1)) ! cutoffs (snd (init ?H 0 (Some 1)))
              = map (\<lambda>(Z, rc). (Z, rc + skin (snd (init ?H 0 (Some 1))))) (?H ! 0)"
    using expl by blast
  show ?thesis
    unfolding c0 c1 s0 s1 by simp
qed

subsection \<open>Evaluation and state\<close>

lemma sqrt_9: "sqrt 9 = 3"
  using real_sqrt_abs[of 3] by simp

lemmas eval_defs =
  rebuild_check_def cached_at_def atoms_at_def atoms_in_def npy_sub_def npy_square_def
  npy_max_def flatten_def build_def build_assign_def build_body_def some_globals_def
  no_globals_def get_pbc_def get_cell_def unit_cell_def zero_cell_def
  py_max_def npy_dot_def vecmat_def Let_def update_def py_fmod_def py_int_def

text \<open>\<open>npy_linalg_inv\<close> returns the inverse: each row of \<open>m\<close> times it is a unit vector.\<close>

lemma npy_linalg_inv_inverse:
  assumes inv: "npy_linalg_inv m = Inr n"
  shows "vecmat (row m 0) n = (1, 0, 0) \<and> vecmat (row m 1) n = (0, 1, 0)
       \<and> vecmat (row m 2) n = (0, 0, 1)"
proof -
  obtain a b c d e f g h i where m: "m = ((a, b, c), (d, e, f), (g, h, i))"
    by (metis prod_cases3)
  define D where "D = det3 m"
  have D: "D \<noteq> 0"
    and n: "n = (((e * i - f * h) / D, (c * h - b * i) / D, (b * f - c * e) / D),
                 ((f * g - d * i) / D, (a * i - c * g) / D, (c * d - a * f) / D),
                 ((d * h - e * g) / D, (b * g - a * h) / D, (a * e - b * d) / D))"
    using inv unfolding m D_def by (auto simp: Let_def split: if_splits)
  have Dv: "D = a * (e * i - f * h) - b * (d * i - f * g) + c * (d * h - e * g)"
    by (simp add: D_def m)
  have k2: "\<And>x y z. x / D + (y / D + z / D) = (x + y + z) / D"
    by (simp add: add_divide_distrib)
  have one: "\<And>t. t = D \<Longrightarrow> t / D = 1" using D by simp
  have zero: "\<And>t. t = 0 \<Longrightarrow> t / D = 0" by simp
  show ?thesis
    unfolding m n vecmat_def
    apply (simp add: algebra_simps)
    apply (simp only: k2)
    apply (intro conjI one zero)
    apply (simp_all add: Dv algebra_simps)
    done
qed

text \<open>The only attributes \<open>build\<close> assigns are \<open>pbc\<close> and \<open>cell\<close>, whatever happens after.\<close>

lemma build_state: "snd (build g s a) = build_assign s a"
  by (simp add: build_def Let_def split: sum.splits)

lemma update_state: "snd (update g s a) = s \<or> snd (update g s a) = build_assign s a"
  using build_state[of g s a]
  by (auto simp: update_def split: sum.splits bool.splits prod.splits)

lemma update_keeps_positions: "positions (snd (update g s a)) = positions s"
  using update_state[of g s a] by (auto simp: build_assign_def)

text \<open>So the condition of \<open>update\<close> comes out the same after any call of \<open>update\<close>.\<close>

lemma rebuild_check_after_update:
  "rebuild_check (snd (update g s a)) a' = rebuild_check s a'"
proof -
  have "positions (snd (update g s a)) = positions s"
    and "skin (snd (update g s a)) = skin s"
    using update_state[of g s a] by (auto simp: build_assign_def)
  then show ?thesis
    by (simp add: rebuild_check_def split: option.splits posval.splits sum.splits)
qed

text \<open>The constructor assigns no \<open>positions\<close>: the first \<open>update\<close> of a new instance raises.\<close>

lemma update_fresh_instance_raises:
  "update g (snd (init h p arg)) a = (Inl AttributeError, snd (init h p arg))"
  by (simp add: update_def rebuild_check_def init_def Let_def)

subsection \<open>The largest value\<close>

lemma fold_max_ge: "(x::real) \<le> fold max xs x"
proof (induction xs arbitrary: x)
  case Nil
  show ?case by simp
next
  case (Cons y ys)
  have "x \<le> max y x" by simp
  also have "\<dots> \<le> fold max ys (max y x)" by (rule Cons.IH)
  finally show ?case by simp
qed

lemma fold_max_mem: "fold max xs (x::real) \<in> insert x (set xs)"
proof (induction xs arbitrary: x)
  case Nil
  show ?case by simp
next
  case (Cons y ys)
  have "fold max ys (max y x) \<in> insert (max y x) (set ys)" by (rule Cons.IH)
  moreover have "max y x = y \<or> max y x = x" by (simp add: max_def)
  ultimately show ?case by auto
qed

lemma fold_max_upper: "v \<in> set xs \<Longrightarrow> (v::real) \<le> fold max xs x"
proof (induction xs arbitrary: x)
  case Nil
  then show ?case by simp
next
  case (Cons y ys)
  show ?case
  proof (cases "v = y")
    case True
    have "v \<le> max y x" using True by simp
    also have "\<dots> \<le> fold max ys (max y x)" by (rule fold_max_ge)
    finally show ?thesis by simp
  next
    case False
    then have "v \<in> set ys" using Cons.prems by simp
    then show ?thesis using Cons.IH by simp
  qed
qed

lemma py_max_largest:
  assumes "py_max vs = Inr m"
  shows "m \<in> set vs" and "list_all (\<lambda>v. v \<le> m) vs"
proof -
  obtain x xs where vs: "vs = x # xs" and m: "m = fold max xs x"
    using assms by (auto simp: py_max_def split: list.splits)
  show "m \<in> set vs" using fold_max_mem[of xs x] by (simp add: vs m)
  show "list_all (\<lambda>v. v \<le> m) vs"
    using fold_max_ge[of x xs] fold_max_upper[of _ xs x] by (simp add: vs m list_all_iff)
qed

subsection \<open>The axis loop\<close>

lemma axis_loop_Inr:
  "axis_loop rc ic pb ax (sc, N) = Inr (sc', N') \<Longrightarrow>
     sc' = fold (wrap_axis pb) ax sc \<and> N' = N @ map (repeats rc ic pb) ax"
proof (induction ax arbitrary: sc N)
  case Nil
  then show ?case by simp
next
  case (Cons i rest)
  show ?case
  proof (cases "bget pb i")
    case True
    let ?sc = "map (\<lambda>p. vset p i (py_fmod (vget p i) 1)) sc"
    let ?n = "py_int (rc / (1 / sqrt (dot3 (column ic i) (column ic i)))) + 1"
    from Cons.prems True have "axis_loop rc ic pb rest (?sc, N @ [?n]) = Inr (sc', N')"
      by (simp add: Let_def split: if_splits)
    from Cons.IH[OF this] show ?thesis using True by (simp add: wrap_axis_def repeats_def)
  next
    case False
    from Cons.prems False have "axis_loop rc ic pb rest (sc, N @ [0]) = Inr (sc', N')"
      by simp
    from Cons.IH[OF this] show ?thesis using False by (simp add: wrap_axis_def repeats_def)
  qed
qed

lemma fold_wrap_axis: "fold (wrap_axis pb) ax sc = map (fold (wrap_vec pb) ax) sc"
  by (induction ax arbitrary: sc) (simp_all add: wrap_axis_def wrap_vec_def)

lemma fold_wrap_vec: "fold (wrap_vec pb) [0, 1, 2] p = spec_wrap pb p"
  by (cases p rule: prod_cases3; cases pb rule: prod_cases3)
     (simp add: wrap_vec_def spec_wrap_def py_fmod_def)

lemma dot3_self_nonneg: "0 \<le> dot3 v v"
  by (cases v rule: prod_cases3) simp

text \<open>What the local variables hold when the body of \<open>build\<close> has run to its end.\<close>

lemma build_body_Inr:
  assumes "build_body g s = Inr L"
  shows "\<exists>d c P pb. g_cutoffs g = Some d \<and> py_max (map snd d) = Inr (l_rcmax L)
           \<and> cell s = Some c \<and> npy_linalg_inv c = Inr (l_icell L)
           \<and> positions s = Some (Array P) \<and> l_scaled0 L = npy_dot P (l_icell L)
           \<and> pbc s = Some pb
           \<and> l_scaled L = fold (wrap_axis pb) [0, 1, 2] (l_scaled0 L)
           \<and> l_N L = map (repeats (l_rcmax L) (l_icell L) pb) [0, 1, 2]
           \<and> l_R L = npy_dot (l_scaled L) c"
proof -
  note [simp del] = axis_loop.simps
  from assms obtain d where d: "g_cutoffs g = Some d"
    by (auto simp: build_body_def split: option.splits)
  from assms d obtain rcmax where rc: "py_max (map snd d) = Inr rcmax"
    by (auto simp: build_body_def split: sum.splits)
  from assms d rc obtain c where c: "cell s = Some c"
    by (auto simp: build_body_def split: option.splits)
  from assms d rc c obtain icell where ic: "npy_linalg_inv c = Inr icell"
    by (auto simp: build_body_def split: sum.splits)
  from assms d rc c ic obtain P where P: "positions s = Some (Array P)"
    by (auto simp: build_body_def split: option.splits posval.splits)
  from assms d rc c ic P obtain pb where pb: "pbc s = Some pb"
    by (auto simp: build_body_def split: option.splits)
  from assms d rc c ic P pb obtain scaled N where
    loop: "axis_loop rcmax icell pb [0, 1, 2] (npy_dot P icell, []) = Inr (scaled, N)"
    by (auto simp: build_body_def split: sum.splits)
  have L: "L = \<lparr>l_rcmax = rcmax, l_icell = icell, l_scaled0 = npy_dot P icell,
                l_scaled = scaled, l_N = N, l_R = npy_dot scaled c\<rparr>"
    using assms d rc c ic P pb loop by (simp add: build_body_def)
  from axis_loop_Inr[OF loop] show ?thesis
    using d rc c ic P pb by (simp add: L)
qed

text \<open>
  \<open>h\<close> on line 25 is the perpendicular spacing of the faces: column \<open>i\<close> of the inverse
  cell is the cross product of the two other lattice vectors over the determinant.
\<close>

lemma column_norm_face_spacing:
  assumes inv: "npy_linalg_inv m = Inr ic" and i: "i < 3"
  shows "1 / sqrt (dot3 (column ic i) (column ic i)) = face_spacing m i"
proof -
  obtain a b c d e f g h k where m: "m = ((a, b, c), (d, e, f), (g, h, k))"
    by (metis prod_cases3)
  define D where "D = det3 m"
  have D: "D \<noteq> 0"
    and ic: "ic = (((e * k - f * h) / D, (c * h - b * k) / D, (b * f - c * e) / D),
                   ((f * g - d * k) / D, (a * k - c * g) / D, (c * d - a * f) / D),
                   ((d * h - e * g) / D, (b * g - a * h) / D, (a * e - b * d) / D))"
    using inv unfolding m D_def by (auto simp: Let_def split: if_splits)
  have scale: "sqrt (dot3 (x / D, y / D, z / D) (x / D, y / D, z / D))
                 = sqrt (dot3 (x, y, z) (x, y, z)) / \<bar>D\<bar>" for x y z
  proof -
    have "dot3 (x / D, y / D, z / D) (x / D, y / D, z / D)
            = dot3 (x, y, z) (x, y, z) / D\<^sup>2"
      by (simp add: power2_eq_square add_divide_distrib)
    then show ?thesis by (simp add: real_sqrt_divide)
  qed
  have detD: "det3 ((a, b, c), (d, e, f), (g, h, k)) = D"
    by (simp add: D_def m)
  from i consider "i = 0" | "i = 1" | "i = 2" by linarith
  then show ?thesis
  proof cases
    case 1
    show ?thesis
      unfolding 1 face_spacing_def euclid_norm_def m ic
      by (simp add: scale detD del: dot3.simps det3.simps)
  next
    case 2
    have c: "cross3 (g, h, k) (a, b, c) = (c * h - b * k, a * k - c * g, b * g - a * h)"
      by (simp add: algebra_simps)
    show ?thesis
      unfolding 2 face_spacing_def euclid_norm_def m ic
      by (simp add: scale c detD del: dot3.simps cross3.simps det3.simps)
  next
    case 3
    have c: "cross3 (a, b, c) (d, e, f) = (b * f - c * e, c * d - a * f, a * e - b * d)"
      by simp
    show ?thesis
      unfolding 3 face_spacing_def euclid_norm_def m ic
      by (simp add: scale c detD del: dot3.simps cross3.simps det3.simps)
  qed
qed

text \<open>
  When \<open>build\<close> runs to its end: \<open>scaled\<close> is what the specification asks for, computed
  from the cached positions of the instance; the positions of the atoms handed to
  \<open>build\<close> have no part in it.
\<close>

lemma build_body_wraps_cached:
  assumes "build_body g (build_assign s a) = Inr L"
  shows "\<exists>P. positions s = Some (Array P)
            \<and> l_scaled L = spec_scaled (l_icell L) (get_pbc a) P"
proof -
  from build_body_Inr[OF assms] obtain P where
    P: "positions s = Some (Array P)" "l_scaled0 L = npy_dot P (l_icell L)"
    and sc: "l_scaled L = fold (wrap_axis (get_pbc a)) [0, 1, 2] (l_scaled0 L)"
    by (auto simp: build_assign_def)
  have "l_scaled L = spec_scaled (l_icell L) (get_pbc a) P"
    by (simp only: sc P(2) fold_wrap_axis fold_wrap_vec spec_scaled_def npy_dot_def
          map_map comp_def)
  with P(1) show ?thesis by blast
qed

lemma build_ignores_atoms_positions:
  "build g s (a\<lparr>atoms_positions := X\<rparr>) = build g s a"
  by (simp add: build_def build_assign_def get_pbc_def get_cell_def)

text \<open>
  When \<open>build\<close> runs to its end: \<open>N\<close> has an entry per axis, \<open>int(rcmax / h) + 1\<close> with
  \<open>h\<close> the face spacing on a periodic axis and 0 on the others, where \<open>rcmax\<close> is the
  largest value of the dictionary that the module-level name \<open>cutoffs\<close> is bound to.
  \<open>int\<close> is the floor when \<open>rcmax\<close> is not negative.
\<close>

lemma build_body_repeat_counts:
  assumes "build_body g (build_assign s a) = Inr L" and "i < 3"
  shows "length (l_N L) = 3
     \<and> (\<exists>d. g_cutoffs g = Some d \<and> py_max (map snd d) = Inr (l_rcmax L))
     \<and> l_N L ! i = (if bget (get_pbc a) i
                    then py_int (l_rcmax L / face_spacing (get_cell a) i) + 1 else 0)
     \<and> (0 \<le> l_rcmax L \<longrightarrow>
          l_N L ! i = spec_repeats (l_rcmax L) (get_cell a) (get_pbc a) i)"
proof -
  from build_body_Inr[OF assms(1)] obtain d where
    d: "g_cutoffs g = Some d" "py_max (map snd d) = Inr (l_rcmax L)"
    and inv: "npy_linalg_inv (get_cell a) = Inr (l_icell L)"
    and N: "l_N L = map (repeats (l_rcmax L) (l_icell L) (get_pbc a)) [0, 1, 2]"
    by (auto simp: build_assign_def)
  from assms(2) consider "i = 0" | "i = 1" | "i = 2" by linarith
  then have Ni: "l_N L ! i = repeats (l_rcmax L) (l_icell L) (get_pbc a) i"
    by cases (simp_all add: N)
  note h = column_norm_face_spacing[OF inv assms(2)]
  have sp: "0 \<le> face_spacing (get_cell a) i"
    by (simp add: face_spacing_def euclid_norm_def dot3_self_nonneg)
  have nonneg: "0 \<le> l_rcmax L / face_spacing (get_cell a) i" if "0 \<le> l_rcmax L"
    using that sp by simp
  show ?thesis
    using d Ni nonneg by (auto simp: N repeats_def h py_int_def spec_repeats_def)
qed

lemma py_index_error:
  "py_index xs a = Inl e \<longleftrightarrow>
     e = IndexError \<and> (a < - int (length xs) \<or> int (length xs) \<le> a)"
  by (auto simp: py_index_def Let_def)

section \<open>The update policy\<close>

text \<open>
  Claim C1. \<open>update\<close> should rebuild exactly when the instance is stale or the largest
  Euclidean displacement of an atom since the last build exceeds the skin. The code
  squares the differences and compares with \<open>skin**2\<close>, but takes the maximum over the
  single coordinates, without the sum over the three coordinates of each atom. With one
  atom cached at the origin, skin 2.5 and the atom moved to (2, 2, 1), the displacement
  is 3 > 2.5 while the largest squared coordinate is 4 < 6.25: the condition is false,
  \<open>update\<close> returns without calling \<open>build\<close> and leaves the instance as it was.
\<close>

theorem update_skips_rebuild_on_diagonal_move:
  "rebuild_check (cached_at (0, 0, 0) (5 / 2)) (atoms_at (2, 2, 1)) = Inr False
   \<and> update no_globals (cached_at (0, 0, 0) (5 / 2)) (atoms_at (2, 2, 1))
       = (Inr PyNone, cached_at (0, 0, 0) (5 / 2))
   \<and> euclid_norm (vsub (2, 2, 1) (0, 0, 0)) = 3
   \<and> spec_should_rebuild (cached_at (0, 0, 0) (5 / 2)) (atoms_at (2, 2, 1))"
  by (simp add: eval_defs spec_should_rebuild_def euclid_norm_def sqrt_9)

text \<open>
  Claim C2. Two calls of \<open>update\<close> in a row with the same atoms should rebuild at most
  once. With one atom cached at the origin, skin 1 and the atom now at (2, 0, 0), the
  first call rebuilds; \<open>build\<close> does not store the new positions, so the second call
  finds the same displacement and rebuilds again. This holds when \<open>build\<close> runs to its
  end and when it raises because \<open>cutoffs\<close> is unbound.
\<close>

theorem second_update_rebuilds_again:
  "rebuild_check (cached_at (0, 0, 0) 1) (atoms_at (2, 0, 0)) = Inr True
   \<and> fst (update some_globals (cached_at (0, 0, 0) 1) (atoms_at (2, 0, 0))) = Inr PyNone
   \<and> rebuild_check (snd (update some_globals (cached_at (0, 0, 0) 1) (atoms_at (2, 0, 0))))
        (atoms_at (2, 0, 0)) = Inr True
   \<and> fst (update no_globals (cached_at (0, 0, 0) 1) (atoms_at (2, 0, 0))) = Inl NameError
   \<and> rebuild_check (snd (update no_globals (cached_at (0, 0, 0) 1) (atoms_at (2, 0, 0))))
        (atoms_at (2, 0, 0)) = Inr True"
  by (simp add: eval_defs)

text \<open>
  Claim C3, as the code has it. \<open>update\<close> has no \<open>return\<close> statement: every call that
  returns, returns \<open>None\<close>, whether it rebuilt or not. It never returns a boolean.
\<close>

theorem update_returns_none: "fst (update g s a) = Inr v \<Longrightarrow> v = PyNone"
  by (auto simp: update_def split: sum.splits bool.splits prod.splits)

theorem update_returns_none_witness:
  "fst (update some_globals (cached_at (0, 0, 0) 1) (atoms_at (2, 0, 0))) = Inr PyNone"
proof -
  have "\<exists>v. fst (update some_globals (cached_at (0, 0, 0) 1) (atoms_at (2, 0, 0))) = Inr v"
    by (simp add: eval_defs)
  then obtain v where
    v: "fst (update some_globals (cached_at (0, 0, 0) 1) (atoms_at (2, 0, 0))) = Inr v" ..
  from update_returns_none[OF v] v show ?thesis by simp
qed

text \<open>
  A call that does not rebuild returns \<open>None\<close>, not \<open>False\<close>; a call that rebuilds
  returns \<open>None\<close>, not \<open>True\<close>.
\<close>

theorem update_returns_bool_counterexample:
  "rebuild_check (cached_at (0, 0, 0) 1) (atoms_at (0, 0, 0)) = Inr False
   \<and> fst (update no_globals (cached_at (0, 0, 0) 1) (atoms_at (0, 0, 0))) = Inr PyNone
   \<and> fst (update no_globals (cached_at (0, 0, 0) 1) (atoms_at (0, 0, 0))) \<noteq> Inr (PyBool False)
   \<and> rebuild_check (cached_at (0, 0, 0) 1) (atoms_at (2, 0, 0)) = Inr True
   \<and> fst (update some_globals (cached_at (0, 0, 0) 1) (atoms_at (2, 0, 0))) = Inr PyNone
   \<and> fst (update some_globals (cached_at (0, 0, 0) 1) (atoms_at (2, 0, 0))) \<noteq> Inr (PyBool True)"
  by (simp add: eval_defs)

text \<open>
  Claim C4. After an \<open>update\<close> that rebuilds, the cached positions should be the ones
  supplied to the call. \<open>build\<close> assigns them to the local variable \<open>positions\<close>, not to
  \<open>self.positions\<close>: after a rebuild that runs to its end, the instance still holds the
  old position (0, 0, 0), not the supplied (2, 0, 0).
\<close>

theorem rebuild_keeps_old_positions:
  "rebuild_check (cached_at (0, 0, 0) 1) (atoms_at (2, 0, 0)) = Inr True
   \<and> fst (update some_globals (cached_at (0, 0, 0) 1) (atoms_at (2, 0, 0))) = Inr PyNone
   \<and> positions (snd (update some_globals (cached_at (0, 0, 0) 1) (atoms_at (2, 0, 0))))
       = Some (Array [(0, 0, 0)])
   \<and> positions (snd (update some_globals (cached_at (0, 0, 0) 1) (atoms_at (2, 0, 0))))
       \<noteq> Some (Array (atoms_positions (atoms_at (2, 0, 0))))"
  by (simp add: eval_defs)

section \<open>The build\<close>

text \<open>
  Claim C5. During \<open>build\<close> the fractional coordinate of each atom should be wrapped
  into [0, 1) on every periodic axis. The code scales and wraps \<open>self.positions\<close>, the
  positions cached in the instance, not the positions of the atoms handed to \<open>build\<close>,
  which line 12 leaves in a local variable that nothing reads. With (1/2, 1/2, 1/2)
  cached and two atoms at (-1/4, 0, 0) and (5/2, 0, 0) in a periodic unit cell,
  \<open>scaled\<close> is the one cached row, where the specification asks for the two rows
  (3/4, 0, 0) and (1/2, 0, 0). On an instance whose \<open>positions\<close> is \<open>None\<close>, line 19
  raises \<open>TypeError\<close>; with \<open>cutoffs\<close> unbound, line 16 raises before any coordinate
  is computed.
\<close>

theorem build_wraps_cached_positions_not_atoms:
  "build_body some_globals (build_assign (cached_at (1 / 2, 1 / 2, 1 / 2) 1) periodic_atoms)
     = Inr \<lparr>l_rcmax = 7 / 32, l_icell = unit_cell,
            l_scaled0 = [(1 / 2, 1 / 2, 1 / 2)], l_scaled = [(1 / 2, 1 / 2, 1 / 2)],
            l_N = [1, 1, 1], l_R = [(1 / 2, 1 / 2, 1 / 2)]\<rparr>
   \<and> spec_scaled unit_cell (get_pbc periodic_atoms) (get_positions periodic_atoms)
       = [(3 / 4, 0, 0), (1 / 2, 0, 0)]
   \<and> build_body some_globals
       (build_assign ((cached_at (1 / 2, 1 / 2, 1 / 2) 1)\<lparr>positions := Some NoneVal\<rparr>)
          periodic_atoms)
       = Inl TypeError
   \<and> fst (build no_globals (cached_at (1 / 2, 1 / 2, 1 / 2) 1) periodic_atoms)
       = Inl NameError"
  by (simp add: eval_defs periodic_atoms_def get_positions_def spec_scaled_def spec_wrap_def)

text \<open>
  Claim C6. On a periodic axis the repeat count should be \<open>floor(rcmax / h) + 1\<close> with
  \<open>rcmax\<close> the largest effective cutoff of the instance. Line 16 reads the name
  \<open>cutoffs\<close>, not \<open>self.cutoffs\<close>. For an instance constructed from the radii
  \<open>{1: 1.0}\<close> with the default skin, the largest effective cutoff is 1.3, and in a unit
  cell periodic along x the count asked for is floor(1.3) + 1 = 2. With \<open>cutoffs\<close>
  unbound, as in the file, \<open>build\<close> raises \<open>NameError\<close> and computes no count; with
  \<open>cutoffs\<close> bound at module level to \<open>{1: 0.21875}\<close>, \<open>rcmax\<close> is 0.21875 and the
  count is 1.
\<close>

theorem build_ignores_instance_cutoffs:
  "spec_rcmax constructed_heap constructed = Inr (13 / 10)
   \<and> spec_repeats (13 / 10) unit_cell (True, False, False) 0 = 2
   \<and> build no_globals constructed (atoms_in unit_cell (True, False, False) (0, 0, 0))
       = (Inl NameError,
          build_assign constructed (atoms_in unit_cell (True, False, False) (0, 0, 0)))
   \<and> build_body some_globals
       (build_assign constructed (atoms_in unit_cell (True, False, False) (0, 0, 0)))
       = Inr \<lparr>l_rcmax = 7 / 32, l_icell = unit_cell,
              l_scaled0 = [(0, 0, 0)], l_scaled = [(0, 0, 0)],
              l_N = [1, 0, 0], l_R = [(0, 0, 0)]\<rparr>"
  by (simp add: eval_defs constructed_def constructed_heap_def init_def py_dict_def
        spec_rcmax_def spec_repeats_def face_spacing_def euclid_norm_def)

text \<open>
  Claim C7, as the code has it. When \<open>build\<close> fails, as it does on the all-zero cell,
  the cached positions, the attribute \<open>cutoffs\<close>, the skin and the stored rows are as
  before the call, and \<open>pbc\<close> and \<open>cell\<close> hold the values of the supplied atoms: the
  two assignments run before anything that can raise.
\<close>

theorem failed_build_overwrites_pbc_and_cell:
  assumes "isl (fst (build g s a))"
  shows "snd (build g s a) = s\<lparr>pbc := Some (get_pbc a), cell := Some (get_cell a)\<rparr>
       \<and> positions (snd (build g s a)) = positions s
       \<and> nbors (snd (build g s a)) = nbors s
       \<and> cutoffs (snd (build g s a)) = cutoffs s
       \<and> skin (snd (build g s a)) = skin s"
  using build_state[of g s a] by (simp add: build_assign_def)

theorem failed_build_overwrites_pbc_and_cell_witness:
  "isl (fst (build some_globals (cached_at (0, 0, 0) 1)
               (atoms_in zero_cell (True, True, True) (0, 0, 0))))
   \<and> snd (build some_globals (cached_at (0, 0, 0) 1)
             (atoms_in zero_cell (True, True, True) (0, 0, 0)))
       = (cached_at (0, 0, 0) 1)\<lparr>pbc := Some (True, True, True), cell := Some zero_cell\<rparr>
   \<and> positions (snd (build some_globals (cached_at (0, 0, 0) 1)
             (atoms_in zero_cell (True, True, True) (0, 0, 0)))) = Some (Array [(0, 0, 0)])
   \<and> isl (fst (build no_globals (cached_at (0, 0, 0) 1) (atoms_at (0, 0, 0))))
   \<and> positions (snd (build no_globals (cached_at (0, 0, 0) 1) (atoms_at (0, 0, 0))))
       = Some (Array [(0, 0, 0)])"
proof -
  have f1: "isl (fst (build some_globals (cached_at (0, 0, 0) 1)
                        (atoms_in zero_cell (True, True, True) (0, 0, 0))))"
    by (simp add: eval_defs)
  have f2: "isl (fst (build no_globals (cached_at (0, 0, 0) 1) (atoms_at (0, 0, 0))))"
    by (simp add: eval_defs)
  from failed_build_overwrites_pbc_and_cell[OF f1]
       failed_build_overwrites_pbc_and_cell[OF f2] f1 f2
  show ?thesis by (simp add: get_cell_def get_pbc_def atoms_in_def cached_at_def)
qed

text \<open>
  An instance holding a unit cell and no periodic axis is given atoms with a zero cell
  and three periodic axes. \<open>build\<close> raises, and the instance now holds the zero cell
  and the three flags; so it does when \<open>cutoffs\<close> is unbound.
\<close>

theorem failed_build_changes_state_counterexample:
  "build some_globals (cached_at (0, 0, 0) 1) (atoms_in zero_cell (True, True, True) (0, 0, 0))
     = (Inl LinAlgError,
        (cached_at (0, 0, 0) 1)\<lparr>pbc := Some (True, True, True), cell := Some zero_cell\<rparr>)
   \<and> snd (build some_globals (cached_at (0, 0, 0) 1)
             (atoms_in zero_cell (True, True, True) (0, 0, 0))) \<noteq> cached_at (0, 0, 0) 1
   \<and> build no_globals (cached_at (0, 0, 0) 1) (atoms_in zero_cell (True, True, True) (0, 0, 0))
     = (Inl NameError,
        (cached_at (0, 0, 0) 1)\<lparr>pbc := Some (True, True, True), cell := Some zero_cell\<rparr>)"
  by (simp add: eval_defs)

section \<open>The adjacency view\<close>

text \<open>
  Claim C8, as the code has it. On an instance whose stored rows number \<open>n\<close>,
  \<open>neighbors(a)\<close> raises \<open>IndexError\<close> exactly when \<open>a < -n\<close> or \<open>a >= n\<close>. For
  \<open>0 <= a < n\<close> it returns row \<open>a\<close>, for \<open>-n <= a < 0\<close> row \<open>a + n\<close>, each time paired
  with \<open>displ\<close>, when that name is bound.
\<close>

theorem neighbors_index_error:
  assumes "nbors s = Some rows"
  shows "(neighbors g s a = Inl IndexError
            \<longleftrightarrow> (a < - int (length rows) \<or> int (length rows) \<le> a))
       \<and> (g_displ g = Some d \<and> 0 \<le> a \<and> a < int (length rows)
            \<longrightarrow> neighbors g s a = Inr (rows ! nat a, d))
       \<and> (g_displ g = Some d \<and> - int (length rows) \<le> a \<and> a < 0
            \<longrightarrow> neighbors g s a = Inr (rows ! nat (a + int (length rows)), d))"
  using assms
  by (auto simp: neighbors_def py_index_def Let_def split: option.splits)

theorem neighbors_index_error_witness:
  "nbors (pair_state [[1], [0]]) = Some [[1], [0]]
   \<and> neighbors some_globals (pair_state [[1], [0]]) 2 = Inl IndexError
   \<and> neighbors some_globals (pair_state [[1], [0]]) (- 3) = Inl IndexError
   \<and> neighbors some_globals (pair_state [[1], [0]]) 1 = Inr ([0], [(1, 0, 0)])
   \<and> neighbors some_globals (pair_state [[1], [0]]) (- 2) = Inr ([1], [(1, 0, 0)])"
proof -
  have n: "nbors (pair_state [[1], [0]]) = Some [[1], [0]]" by (simp add: pair_state_def)
  have g: "g_displ some_globals = Some [(1, 0, 0)]" by (simp add: some_globals_def)
  note T = neighbors_index_error[OF n, of some_globals _ "[(1, 0, 0)]"]
  show ?thesis
    using n g T[of 2] T[of "- 3"] T[of 1] T[of "- 2"] by simp
qed

text \<open>
  With two atoms the index -1 is outside 0..1, and \<open>neighbors(-1)\<close> returns the last
  row instead of raising \<open>IndexError\<close>; with \<open>displ\<close> unbound it raises \<open>NameError\<close>.
\<close>

theorem neighbors_negative_index_counterexample:
  "neighbors some_globals (pair_state [[1], [0]]) (- 1) = Inr ([0], [(1, 0, 0)])
   \<and> neighbors some_globals (pair_state [[1], [0]]) (- 1) \<noteq> Inl IndexError
   \<and> neighbors no_globals (pair_state [[1], [0]]) (- 1) = Inl NameError"
  by (simp add: neighbors_def pair_state_def py_index_def some_globals_def no_globals_def)




end
